theory Spec2Isabelle
  imports Complex_Main "HOL-Library.Multiset"
begin

section \<open>Data model\<close>

text \<open>
  The classifiers of \<^verbatim>\<open>ml_model.py\<close> and \<^verbatim>\<open>dl_model.py\<close> exchange risk tiers and
  stages as the string constants \<^verbatim>\<open>'Low'\<close>, \<^verbatim>\<open>'Medium'\<close>, \<^verbatim>\<open>'High'\<close> and
  \<^verbatim>\<open>'Stage 1'\<close>, \<^verbatim>\<open>'Stage 2'\<close>, \<^verbatim>\<open>'Stage 3'\<close>; they are the two enumerations below.
  An absent stage is Python's \<^verbatim>\<open>None\<close>.

  A Python float is an IEEE 754 binary64 value. In the fusion and in the classifiers'
  threshold tests, where a rounding can change the tier or the stage, it is modelled as
  the real number it denotes, with every operation rounded to the nearest double (section
  "Binary64 arithmetic"). The explanation's percentages are computed over exact reals: the
  specification states their sum up to an epsilon.
\<close>

datatype risk = Low | Medium | High

datatype stage = Stage1 | Stage2 | Stage3

text \<open>
  A classifier result is the 4-tuple \<^verbatim>\<open>(risk_level, confidence, stage, probabilities)\<close>;
  the request handler passes \<^verbatim>\<open>None\<close> as the fourth component of the image result.
\<close>

type_synonym classifier_result = "risk \<times> real \<times> stage option \<times> real list option"

text \<open>
  The exceptions the modelled code can raise. \<open>ValueError\<close> carries its message, since
  the "model not loaded" failure is a \<^verbatim>\<open>ValueError\<close> told apart by its text.
\<close>

datatype error = ValueError string | IndexError | KeyError | TypeError

definition model_not_loaded :: error where
  "model_not_loaded = ValueError ''Model not loaded. Call load() first.''"

section \<open>Binary64 arithmetic\<close>

text \<open>
  Rounding to the nearest integer, ties to the even one: the rule of IEEE 754's default
  rounding mode, applied to a value scaled to the grid of its binade.
\<close>

definition round_half_even :: "real \<Rightarrow> int" where
  "round_half_even y =
     (let n = \<lfloor>y\<rfloor>; r = y - of_int n
      in if r < 1 / 2 then n else if 1 / 2 < r then n + 1 else if even n then n else n + 1)"

text \<open>
  The binade of a magnitude: the greatest exponent \<open>E\<close> from -1022 to 1023 with
  \<open>2 ^ E \<le> x\<close>, found from the top; -1022, the exponent of the subnormal range, when
  there is none.
\<close>

fun binade_from :: "nat \<Rightarrow> real \<Rightarrow> int" where
  "binade_from 0 x = - 1022"
| "binade_from (Suc n) x =
     (if 2 powi (int (Suc n) - 1022) \<le> x then int (Suc n) - 1022 else binade_from n x)"

definition binade :: "real \<Rightarrow> int" where
  "binade x = binade_from 2045 \<bar>x\<bar>"

text \<open>
  The double nearest to a real: doubles of binade \<open>E\<close> are the multiples of
  \<open>2 ^ (E - 52)\<close> (53 significant bits; \<open>2 ^ -1074\<close> throughout the subnormal range).
  A result of magnitude \<open>2 ^ 1024\<close> or more would be an infinity, which is not
  modelled: the fusion's operands are confidences in [0, 1], and none of its intermediate
  values exceeds 4.
\<close>

definition fl :: "real \<Rightarrow> real" where
  "fl x = (let u = 2 powi (binade x - 52) in of_int (round_half_even (x / u)) * u)"

definition min_subnormal :: real where
  "min_subnormal = 2 powi (- 1074)"

definition is_double :: "real \<Rightarrow> bool" where
  "is_double x = (fl x = x \<and> \<bar>x\<bar> < 2 ^ 1024)"

text \<open>Python's \<^verbatim>\<open>+\<close>, \<^verbatim>\<open>*\<close> and \<^verbatim>\<open>/\<close> on floats: the exact result, rounded once.\<close>

definition fadd :: "real \<Rightarrow> real \<Rightarrow> real" where
  "fadd x y = fl (x + y)"

definition fmul :: "real \<Rightarrow> real \<Rightarrow> real" where
  "fmul x y = fl (x * y)"

text \<open>The divisions of the modelled code are guarded: the divisor is positive.\<close>

definition fdiv :: "real \<Rightarrow> real \<Rightarrow> real" where
  "fdiv x y = fl (x / y)"

section \<open>Fusion: \<^verbatim>\<open>StrokeDLModel.combine_predictions\<close>\<close>

text \<open>
  What \<^verbatim>\<open>combine_predictions\<close> returns: one of its arguments as it is (possibly
  \<^verbatim>\<open>None\<close>), or a fresh 3-tuple \<^verbatim>\<open>(final_risk, combined_prob, final_stage)\<close>.
\<close>

datatype combine_out =
    Returned "classifier_result option"
  | Fused "risk \<times> real \<times> stage option"

text \<open>
  Lines 206-208: the dynamic weights. The literals \<^verbatim>\<open>0.3\<close> and \<^verbatim>\<open>0.7\<close> denote the
  doubles nearest to them.
\<close>

definition ml_weight :: "real \<Rightarrow> real \<Rightarrow> real" where
  "ml_weight ml_prob dl_prob =
     (let total_confidence = fadd ml_prob dl_prob
      in if total_confidence > 0 then fdiv ml_prob total_confidence else fl 0.3)"

definition dl_weight :: "real \<Rightarrow> real \<Rightarrow> real" where
  "dl_weight ml_prob dl_prob =
     (let total_confidence = fadd ml_prob dl_prob
      in if total_confidence > 0 then fdiv dl_prob total_confidence else fl 0.7)"

text \<open>
  Line 213, the dictionary \<^verbatim>\<open>risk_scores\<close>; the default \<^verbatim>\<open>0\<close> of \<^verbatim>\<open>.get\<close> is never
  taken on the three tiers. The integer scores enter the products as the doubles 0, 1, 2.
\<close>

definition risk_scores :: "risk \<Rightarrow> real" where
  "risk_scores r = (case r of Low \<Rightarrow> 0 | Medium \<Rightarrow> 1 | High \<Rightarrow> 2)"

text \<open>
  Python's \<^verbatim>\<open>a or b\<close> on optional stages: the stage strings are non-empty, so a stage is
  falsy exactly when it is \<^verbatim>\<open>None\<close>.
\<close>

definition py_or :: "stage option \<Rightarrow> stage option \<Rightarrow> stage option" where
  "py_or a b = (case a of Some s \<Rightarrow> Some s | None \<Rightarrow> b)"

definition combine_predictions ::
  "classifier_result option \<Rightarrow> classifier_result option \<Rightarrow> error + combine_out" where
  "combine_predictions ml_result dl_result =
     (case (ml_result, dl_result) of
        (Some (ml_risk, ml_prob, ml_stage, _), Some (dl_risk, dl_prob, dl_stage, _)) \<Rightarrow>
          let ml_score = risk_scores ml_risk;
              dl_score = risk_scores dl_risk;
              combined_score = fadd (fmul (ml_weight ml_prob dl_prob) ml_score)
                                    (fmul (dl_weight ml_prob dl_prob) dl_score);
              combined_prob = fadd (fmul (ml_weight ml_prob dl_prob) ml_prob)
                                   (fmul (dl_weight ml_prob dl_prob) dl_prob)
          in if combined_score < fl 0.7 then Inr (Fused (Low, combined_prob, None))
             else if combined_score < fl 1.5 then
               Inr (Fused (Medium, combined_prob, py_or (py_or ml_stage dl_stage) (Some Stage1)))
             else
               Inr (Fused (High, combined_prob,
                     if dl_prob > ml_prob then dl_stage
                     else py_or (py_or ml_stage dl_stage) (Some Stage2)))
      | _ \<Rightarrow> Inr (Returned (if dl_result = None then ml_result else dl_result)))"

section \<open>Tabular classifier: \<^verbatim>\<open>StrokeMLModel\<close>\<close>

text \<open>
  The feature dictionary the request handler builds: four integers, three floats and two
  booleans under the nine keys of \<^verbatim>\<open>feature_names\<close>.
\<close>

record features =
  age :: int
  heart_rate :: int
  bp_systolic :: int
  bp_diastolic :: int
  blood_sugar :: real
  cholesterol :: real
  bmi :: real
  is_smoker :: bool
  is_alcoholic :: bool

definition feature_names :: "string list" where
  "feature_names =
     [''age'', ''heart_rate'', ''bp_systolic'', ''bp_diastolic'',
      ''blood_sugar'', ''cholesterol'', ''bmi'', ''is_smoker'', ''is_alcoholic'']"

text \<open>
  The row of the \<^verbatim>\<open>np.array([[...]])\<close> built in \<^verbatim>\<open>predict\<close> and in
  \<^verbatim>\<open>explain_prediction\<close>: a float array, the booleans as 1 and 0.
\<close>

definition feature_vector :: "features \<Rightarrow> real list" where
  "feature_vector f =
     [of_int (age f), of_int (heart_rate f), of_int (bp_systolic f), of_int (bp_diastolic f),
      blood_sugar f, cholesterol f, bmi f,
      (if is_smoker f then 1 else 0), (if is_alcoholic f then 1 else 0)]"

text \<open>
  The trained forest is a library object; the model keeps what the code asks of it:
  \<^verbatim>\<open>predict(X)[0]\<close> (a class label; the training labels are 0, 1, 2),
  \<^verbatim>\<open>predict_proba(X)[0]\<close>, \<^verbatim>\<open>feature_importances_.tolist()\<close>, and its length (the
  number of fitted trees), which is what \<^verbatim>\<open>elif self.model:\<close> tests.
\<close>

record forest =
  forest_predict :: "real list \<Rightarrow> nat"
  forest_predict_proba :: "real list \<Rightarrow> real list"
  forest_importances :: "real list"
  forest_len :: nat

text \<open>
  The attributes of \<^verbatim>\<open>StrokeMLModel\<close> that prediction and explanation read. A
  dictionary is an association list with distinct keys, in insertion order.
\<close>

record StrokeMLModel =
  model :: "forest option"
  scaler :: "real list \<Rightarrow> real list"
  feature_importances :: "(string \<times> real) list option"

definition risk_levels :: "risk list" where
  "risk_levels = [Low, Medium, High]"

text \<open>
  \<^verbatim>\<open>predict\<close>, lines 174-219. Indexing a Python list past its end raises
  \<^verbatim>\<open>IndexError\<close>. The probabilities are doubles, compared with the doubles that the
  literals \<^verbatim>\<open>0.8\<close> and \<^verbatim>\<open>0.6\<close> denote.
\<close>

definition ml_predict :: "StrokeMLModel \<Rightarrow> features \<Rightarrow> error + classifier_result" where
  "ml_predict m f =
     (case model m of
        None \<Rightarrow> Inl model_not_loaded
      | Some rf \<Rightarrow>
          let feature_vector_scaled = scaler m (feature_vector f);
              prediction = forest_predict rf feature_vector_scaled;
              probabilities = forest_predict_proba rf feature_vector_scaled
          in if \<not> prediction < length risk_levels then Inl IndexError
             else if \<not> prediction < length probabilities then Inl IndexError
             else
               let risk_level = risk_levels ! prediction;
                   max_prob = probabilities ! prediction;
                   stg = (if prediction = 0 then None
                          else if prediction = 1 then Some Stage1
                          else if max_prob > fl 0.8 then Some Stage3
                          else if max_prob > fl 0.6 then Some Stage2
                          else Some Stage1)
               in Inr (risk_level, max_prob, stg, Some probabilities))"

text \<open>\<^verbatim>\<open>get_feature_importance\<close>, lines 221-227; an empty dictionary is falsy.\<close>

definition get_feature_importance :: "StrokeMLModel \<Rightarrow> (string \<times> real) list option" where
  "get_feature_importance m =
     (if feature_importances m \<noteq> None \<and> feature_importances m \<noteq> Some []
      then feature_importances m
      else (case model m of
              None \<Rightarrow> None
            | Some rf \<Rightarrow>
                if forest_len rf \<noteq> 0 then Some (zip feature_names (forest_importances rf))
                else None))"

text \<open>The \<^verbatim>\<open>if\<close>/\<^verbatim>\<open>elif\<close> chain of lines 262-279.\<close>

definition normalized :: "string \<Rightarrow> real \<Rightarrow> real" where
  "normalized feature_name feature_value =
     (if feature_name = ''age'' then (feature_value - 20) / 70
      else if feature_name \<in> set [''is_smoker'', ''is_alcoholic''] then feature_value
      else if feature_name = ''heart_rate'' then (feature_value - 60) / 60
      else if feature_name = ''bp_systolic'' then (feature_value - 90) / 90
      else if feature_name = ''bp_diastolic'' then (feature_value - 60) / 60
      else if feature_name = ''blood_sugar'' then (feature_value - 70) / 180
      else if feature_name = ''cholesterol'' then (feature_value - 150) / 150
      else if feature_name = ''bmi'' then (feature_value - 18) / 22
      else 0.5)"

text \<open>\<^verbatim>\<open>importances.get(feature_name, 0)\<close>.\<close>

definition importance_of :: "(string \<times> real) list \<Rightarrow> string \<Rightarrow> real" where
  "importance_of importances feature_name =
     (case map_of importances feature_name of Some w \<Rightarrow> w | None \<Rightarrow> 0)"

text \<open>
  One round of the loop of lines 257-282, for the pair \<^verbatim>\<open>(i, feature_name)\<close> that
  \<^verbatim>\<open>enumerate\<close> yields. The index stays below 9, the length of the row.
\<close>

definition contribution :: "(string \<times> real) list \<Rightarrow> real list \<Rightarrow> nat \<times> string \<Rightarrow> string \<times> real" where
  "contribution importances row p =
     (case p of (i, feature_name) \<Rightarrow>
        (feature_name,
         importance_of importances feature_name * max 0 (normalized feature_name (row ! i))))"

text \<open>
  \<^verbatim>\<open>explain_prediction\<close>, lines 233-289. \<^verbatim>\<open>sorted(..., reverse=True)\<close> is stable, as
  is \<^const>\<open>sort_key\<close> on the negated value.
\<close>

definition explain_prediction :: "StrokeMLModel \<Rightarrow> features \<Rightarrow> (string \<times> real) list option" where
  "explain_prediction m f =
     (if model m = None then None
      else (case get_feature_importance m of
              None \<Rightarrow> None
            | Some importances \<Rightarrow>
                let contributions =
                      map (contribution importances (feature_vector f)) (enumerate 0 feature_names);
                    total = sum_list (map snd contributions);
                    contributions =
                      (if total > 0 then map (\<lambda>(k, v). (k, (v / total) * 100)) contributions
                       else contributions)
                in Some (sort_key (\<lambda>x. - snd x) contributions)))"

text \<open>
  The strings \<^verbatim>\<open>get_recommendations\<close> appends, in the order of their first appearance
  in the source (lines 296-326).
\<close>

datatype notice =
    UrgentConsultation
  | EmergencyEvaluation
  | HighBloodPressure
  | ElevatedBloodSugar
  | HighCholesterol
  | Obesity
  | SmokingCessation
  | ReduceAlcohol
  | CheckupsEvery3to6Months
  | AnnualCheckups
  | RegularExercise
  | BalancedDiet
  | AdequateSleep

text \<open>
  \<^verbatim>\<open>get_recommendations\<close>, lines 291-328: the list is threaded through the
  \<^verbatim>\<open>append\<close> calls. The \<^verbatim>\<open>stage\<close> argument is not read.
\<close>

definition append_if :: "bool \<Rightarrow> notice list \<Rightarrow> notice list \<Rightarrow> notice list" where
  "append_if c recommendations ns = (if c then recommendations @ ns else recommendations)"

definition get_recommendations :: "features \<Rightarrow> risk \<Rightarrow> stage option \<Rightarrow> notice list" where
  "get_recommendations f risk_level stg =
     (let recommendations = [];
          recommendations = append_if (risk_level = High) recommendations
                              [UrgentConsultation, EmergencyEvaluation];
          recommendations = append_if (bp_systolic f > 140 \<or> bp_diastolic f > 90) recommendations
                              [HighBloodPressure];
          recommendations = append_if (blood_sugar f > 126) recommendations [ElevatedBloodSugar];
          recommendations = append_if (cholesterol f > 240) recommendations [HighCholesterol];
          recommendations = append_if (bmi f > 30) recommendations [Obesity];
          recommendations = append_if (is_smoker f) recommendations [SmokingCessation];
          recommendations = append_if (is_alcoholic f) recommendations [ReduceAlcohol];
          recommendations = append_if (risk_level = Medium) recommendations
                              [CheckupsEvery3to6Months];
          recommendations = append_if (risk_level = Low) recommendations [AnnualCheckups];
          recommendations = recommendations @ [RegularExercise];
          recommendations = recommendations @ [BalancedDiet];
          recommendations = recommendations @ [AdequateSleep]
      in recommendations)"

section \<open>Image classifier: \<^verbatim>\<open>StrokeDLModel\<close>\<close>

text \<open>
  The network is a library object: the model keeps \<^verbatim>\<open>predict(img_array, verbose=0)[0]\<close>,
  the row of class probabilities for a preprocessed image. An image array is the list of
  its pixel values.
\<close>

record StrokeDLModel =
  img_height :: nat
  img_width :: nat
  keras_model :: "(real list \<Rightarrow> real list) option"

text \<open>
  The file system and the decoder: \<^verbatim>\<open>img_to_array(load_img(path, target_size=(h, w)))\<close>,
  with \<open>None\<close> where the call raises (a missing, malformed or unsupported file).
\<close>

type_synonym image_loader = "string \<Rightarrow> nat \<times> nat \<Rightarrow> real list option"

text \<open>
  \<^verbatim>\<open>preprocess_image\<close>, lines 155-165: any exception is caught, printed, and turned into
  the return value \<^verbatim>\<open>None\<close>.
\<close>

definition preprocess_image :: "image_loader \<Rightarrow> StrokeDLModel \<Rightarrow> string \<Rightarrow> real list option" where
  "preprocess_image loader m image_path =
     (case loader image_path (img_height m, img_width m) of
        None \<Rightarrow> None
      | Some img_array \<Rightarrow> Some (map (\<lambda>p. p / 255.0) img_array))"

text \<open>
  \<^verbatim>\<open>np.argmax\<close>: the first index of the greatest entry; on an empty array it raises a
  \<^verbatim>\<open>ValueError\<close>.
\<close>

fun argmax_loop :: "nat \<Rightarrow> real \<Rightarrow> nat \<Rightarrow> real list \<Rightarrow> nat" where
  "argmax_loop best best_value i [] = best"
| "argmax_loop best best_value i (x # xs) =
     (if x > best_value then argmax_loop i x (Suc i) xs
      else argmax_loop best best_value (Suc i) xs)"

definition np_argmax :: "real list \<Rightarrow> error + nat" where
  "np_argmax xs =
     (case xs of
        [] \<Rightarrow> Inl (ValueError ''attempt to get argmax of an empty sequence'')
      | x # rest \<Rightarrow> Inr (argmax_loop 0 x 1 rest))"

text \<open>The dictionary \<^verbatim>\<open>class_mapping\<close>, lines 185-190; a missing key raises \<^verbatim>\<open>KeyError\<close>.\<close>

definition class_mapping :: "nat \<Rightarrow> (risk \<times> stage option) option" where
  "class_mapping =
     map_of [(0, (Low, None)), (1, (Medium, Some Stage1)),
             (2, (High, Some Stage2)), (3, (High, Some Stage3))]"

text \<open>
  What \<^verbatim>\<open>StrokeDLModel.predict\<close> returns: a 4-tuple whose components are all
  \<^verbatim>\<open>None\<close> when the image could not be preprocessed.
\<close>

type_synonym dl_result = "risk option \<times> real option \<times> stage option \<times> real list option"

text \<open>
  \<^verbatim>\<open>predict\<close>, lines 167-194. The index \<^verbatim>\<open>predicted_class\<close> comes from
  \<^verbatim>\<open>np.argmax\<close>, so it is within the row.
\<close>

definition dl_predict :: "image_loader \<Rightarrow> StrokeDLModel \<Rightarrow> string \<Rightarrow> error + dl_result" where
  "dl_predict loader m image_path =
     (case keras_model m of
        None \<Rightarrow> Inl model_not_loaded
      | Some net \<Rightarrow>
          (case preprocess_image loader m image_path of
             None \<Rightarrow> Inr (None, None, None, None)
           | Some img_array \<Rightarrow>
               let probabilities = net img_array
               in (case np_argmax probabilities of
                     Inl e \<Rightarrow> Inl e
                   | Inr predicted_class \<Rightarrow>
                       let confidence = probabilities ! predicted_class
                       in (case class_mapping predicted_class of
                             None \<Rightarrow> Inl KeyError
                           | Some (risk_level, stg) \<Rightarrow>
                               Inr (Some risk_level, Some confidence, stg,
                                    Some probabilities)))))"

section \<open>The request handler's use of the classifiers\<close>

text \<open>
  Lines 264-289 of \<^verbatim>\<open>app.py\<close>, in \<^verbatim>\<open>predict_stroke\<close>: the tabular prediction, the
  image prediction when a scan was uploaded under an allowed file name (\<open>scan\<close> is the
  path it was saved to), and the fusion. \<^verbatim>\<open>if dl_risk:\<close> is false for \<^verbatim>\<open>None\<close>; the
  risk strings are non-empty. An exception leaves the block: the enclosing
  \<^verbatim>\<open>except\<close> answers with status 500.
\<close>

definition unpack3 :: "error + combine_out \<Rightarrow> error + risk \<times> real \<times> stage option" where
  "unpack3 r =
     (case r of
        Inl e \<Rightarrow> Inl e
      | Inr (Fused t) \<Rightarrow> Inr t
      | Inr (Returned (Some t)) \<Rightarrow> Inl (ValueError ''too many values to unpack (expected 3)'')
      | Inr (Returned None) \<Rightarrow> Inl TypeError)"

definition predict_stroke ::
  "image_loader \<Rightarrow> StrokeMLModel \<Rightarrow> StrokeDLModel \<Rightarrow> features \<Rightarrow> string option
     \<Rightarrow> error + risk \<times> real \<times> stage option" where
  "predict_stroke loader ml_model dl_model f scan =
     (case ml_predict ml_model f of
        Inl e \<Rightarrow> Inl e
      | Inr (ml_risk, ml_prob, ml_stage, ml_probs) \<Rightarrow>
          (case (case scan of
                   None \<Rightarrow> Inr (None, None, None, None)
                 | Some filepath \<Rightarrow> dl_predict loader dl_model filepath) of
             Inl e \<Rightarrow> Inl e
           | Inr (dl_risk, dl_prob, dl_stage, dl_probs) \<Rightarrow>
               (case dl_risk of
                  None \<Rightarrow> Inr (ml_risk, ml_prob, ml_stage)
                | Some r \<Rightarrow>
                    (case dl_prob of
                       None \<Rightarrow> Inl TypeError
                     | Some p \<Rightarrow>
                         unpack3 (combine_predictions
                                    (Some (ml_risk, ml_prob, ml_stage, ml_probs))
                                    (Some (r, p, dl_stage, None)))))))"

section \<open>The specification's reading of fusion and explanation\<close>

text \<open>
  The fusion rule as the specification words it: scores 0, 1, 2; the weights
  \<open>conf_A / (conf_A + conf_B)\<close> and \<open>conf_B / (conf_A + conf_B)\<close>, or 0.3 and 0.7 when
  the sum is zero; the weighted sums; the three tiers with their tie-breaks. Its
  arithmetic is the program's: sums, products and quotients of doubles.
\<close>

definition spec_score :: "risk \<Rightarrow> real" where
  "spec_score r = (if r = Low then 0 else if r = Medium then 1 else 2)"

definition spec_weight_A :: "real \<Rightarrow> real \<Rightarrow> real" where
  "spec_weight_A conf_A conf_B =
     (if fadd conf_A conf_B = 0 then fl 0.3 else fdiv conf_A (fadd conf_A conf_B))"

definition spec_weight_B :: "real \<Rightarrow> real \<Rightarrow> real" where
  "spec_weight_B conf_A conf_B =
     (if fadd conf_A conf_B = 0 then fl 0.7 else fdiv conf_B (fadd conf_A conf_B))"

definition spec_first_present :: "stage option \<Rightarrow> stage option \<Rightarrow> stage \<Rightarrow> stage option" where
  "spec_first_present stage_A stage_B fallback =
     (if stage_A \<noteq> None then stage_A else if stage_B \<noteq> None then stage_B else Some fallback)"

definition spec_combine ::
  "risk \<times> real \<times> stage option \<Rightarrow> risk \<times> real \<times> stage option \<Rightarrow> risk \<times> real \<times> stage option" where
  "spec_combine A B =
     (case (A, B) of ((risk_A, conf_A, stage_A), (risk_B, conf_B, stage_B)) \<Rightarrow>
        let weight_A = spec_weight_A conf_A conf_B;
            weight_B = spec_weight_B conf_A conf_B;
            combined_score = fadd (fmul weight_A (spec_score risk_A))
                                  (fmul weight_B (spec_score risk_B));
            combined_confidence = fadd (fmul weight_A conf_A) (fmul weight_B conf_B)
        in if combined_score < fl 0.7 then (Low, combined_confidence, None)
           else if combined_score < fl 1.5 then
             (Medium, combined_confidence, spec_first_present stage_A stage_B Stage1)
           else
             (High, combined_confidence,
              if conf_B > conf_A then stage_B else spec_first_present stage_A stage_B Stage2))"

text \<open>
  The stage invariant of the data model: no stage on a low risk, a stage on a medium or
  high one.
\<close>

definition spec_stage_invariant :: "risk \<Rightarrow> stage option \<Rightarrow> bool" where
  "spec_stage_invariant r stg = (if r = Low then stg = None else stg \<noteq> None)"

text \<open>
  The explanation as the specification words it: each feature's value mapped linearly
  onto its clinical range, clamped at zero and weighted by the feature's importance.
\<close>

definition spec_normalized :: "features \<Rightarrow> (string \<times> real) list" where
  "spec_normalized f =
     [(''age'', (of_int (age f) - 20) / 70),
      (''heart_rate'', (of_int (heart_rate f) - 60) / 60),
      (''bp_systolic'', (of_int (bp_systolic f) - 90) / 90),
      (''bp_diastolic'', (of_int (bp_diastolic f) - 60) / 60),
      (''blood_sugar'', (blood_sugar f - 70) / 180),
      (''cholesterol'', (cholesterol f - 150) / 150),
      (''bmi'', (bmi f - 18) / 22),
      (''is_smoker'', if is_smoker f then 1 else 0),
      (''is_alcoholic'', if is_alcoholic f then 1 else 0)]"

definition spec_contributions :: "(string \<times> real) list \<Rightarrow> features \<Rightarrow> (string \<times> real) list" where
  "spec_contributions importances f =
     map (\<lambda>(k, n). (k, max 0 n * importance_of importances k)) (spec_normalized f)"

definition spec_total :: "(string \<times> real) list \<Rightarrow> features \<Rightarrow> real" where
  "spec_total importances f = sum_list (map snd (spec_contributions importances f))"

definition spec_percentages :: "(string \<times> real) list \<Rightarrow> features \<Rightarrow> (string \<times> real) list" where
  "spec_percentages importances f =
     map (\<lambda>(k, c). (k, c / spec_total importances f * 100)) (spec_contributions importances f)"

text \<open>
  The recommendation rules as the specification lists them, one optional group after the
  other.
\<close>

definition spec_recommend :: "features \<Rightarrow> risk \<Rightarrow> notice list" where
  "spec_recommend f r =
     (if r = High then [UrgentConsultation, EmergencyEvaluation] else [])
     @ (if bp_systolic f > 140 \<or> bp_diastolic f > 90 then [HighBloodPressure] else [])
     @ (if blood_sugar f > 126 then [ElevatedBloodSugar] else [])
     @ (if cholesterol f > 240 then [HighCholesterol] else [])
     @ (if bmi f > 30 then [Obesity] else [])
     @ (if is_smoker f then [SmokingCessation] else [])
     @ (if is_alcoholic f then [ReduceAlcohol] else [])
     @ (if r = Medium then [CheckupsEvery3to6Months] else [])
     @ (if r = Low then [AnnualCheckups] else [])
     @ [RegularExercise, BalancedDiet, AdequateSleep]"

section \<open>Concrete inputs\<close>

text \<open>
  A patient with raised blood pressure, a patient whose every measurement sits at the
  lower end of its range, a forest that answers class 2, a network that answers class 2,
  and a file system holding one readable scan.
\<close>

definition patient_raised_bp :: features where
  "patient_raised_bp =
     \<lparr>age = 65, heart_rate = 80, bp_systolic = 150, bp_diastolic = 95, blood_sugar = 100,
      cholesterol = 200, bmi = 28, is_smoker = False, is_alcoholic = False\<rparr>"


definition forest_class2 :: forest where
  "forest_class2 =
     \<lparr>forest_predict = (\<lambda>row. 2),
      forest_predict_proba = (\<lambda>row. [1 / 16, 1 / 16, 7 / 8]),
      forest_importances = [0.25, 0.05, 0.2, 0.05, 0.15, 0.1, 0.1, 0.05, 0.05],
      forest_len = 200\<rparr>"

definition ml_loaded :: StrokeMLModel where
  "ml_loaded = \<lparr>model = Some forest_class2, scaler = (\<lambda>row. row), feature_importances = None\<rparr>"

definition ml_unloaded :: StrokeMLModel where
  "ml_unloaded = \<lparr>model = None, scaler = (\<lambda>row. row), feature_importances = None\<rparr>"

definition net_class2 :: "real list \<Rightarrow> real list" where
  "net_class2 img_array = [1 / 8, 1 / 8, 5 / 8, 1 / 8]"

definition dl_loaded :: StrokeDLModel where
  "dl_loaded = \<lparr>img_height = 224, img_width = 224, keras_model = Some net_class2\<rparr>"

definition dl_unloaded :: StrokeDLModel where
  "dl_unloaded = \<lparr>img_height = 224, img_width = 224, keras_model = None\<rparr>"

definition one_scan :: image_loader where
  "one_scan image_path target_size = (if image_path = ''scan.png'' then Some [255, 0, 51] else None)"

section \<open>Binary64 arithmetic: the rounding error\<close>

lemma round_half_even_error: "\<bar>of_int (round_half_even y) - y\<bar> \<le> 1 / 2"
  unfolding round_half_even_def Let_def by (auto; linarith)

lemma round_half_even_of_int: "round_half_even (of_int k) = k"
  by (simp add: round_half_even_def)

lemma round_half_even_nonneg: "0 \<le> y \<Longrightarrow> 0 \<le> round_half_even y"
  unfolding round_half_even_def Let_def by (auto; linarith)

lemma binade_from_lower: "- 1022 \<le> binade_from n x"
  by (induction n) auto

lemma binade_from_le:
  "binade_from n x = - 1022 \<or> 2 powi (binade_from n x) \<le> x"
  by (induction n) auto

lemma pow2_less_imp: "(2::real) powi m < 2 powi n \<Longrightarrow> m < n"
  using power_int_increasing [of n m "2::real"] by (cases "m < n") auto

lemma binade_from_eq:
  "2 powi E \<le> x \<Longrightarrow> x < 2 powi (E + 1) \<Longrightarrow> - 1022 \<le> E \<Longrightarrow> E \<le> int n - 1022 \<Longrightarrow>
     binade_from n x = E"
proof (induction n)
  case 0
  then show ?case by simp
next
  case (Suc n)
  show ?case
  proof (cases "2 powi (int (Suc n) - 1022) \<le> x")
    case True
    then have "(2::real) powi (int (Suc n) - 1022) < 2 powi (E + 1)"
      using Suc.prems(2) by linarith
    then have "int (Suc n) - 1022 < E + 1" by (rule pow2_less_imp)
    then show ?thesis using True Suc.prems(4) by simp
  next
    case False
    then have "(2::real) powi E < 2 powi (int (Suc n) - 1022)"
      using Suc.prems(1) by linarith
    then have "E < int (Suc n) - 1022" by (rule pow2_less_imp)
    then have "E \<le> int n - 1022" by simp
    then show ?thesis using False Suc by simp
  qed
qed

lemma binade_lower: "- 1022 \<le> binade x"
  by (simp add: binade_def binade_from_lower)

lemma binade_le: "binade x = - 1022 \<or> 2 powi (binade x) \<le> \<bar>x\<bar>"
  unfolding binade_def by (rule binade_from_le)

lemma binade_eq:
  "2 powi E \<le> \<bar>x\<bar> \<Longrightarrow> \<bar>x\<bar> < 2 powi (E + 1) \<Longrightarrow> - 1022 \<le> E \<Longrightarrow> E \<le> 1023 \<Longrightarrow> binade x = E"
  unfolding binade_def by (rule binade_from_eq) simp_all

lemma min_subnormal_pos: "0 < min_subnormal"
  unfolding min_subnormal_def by (rule zero_less_power_int) simp

lemma pow2_split: "(2::real) powi (m + n) = 2 powi m * 2 powi n"
  by (rule power_int_add) simp

lemma pow2_pos: "0 < (2::real) powi n"
  by (rule zero_less_power_int) simp

lemma fl_error_ulp: "\<bar>fl x - x\<bar> \<le> 2 powi (binade x - 52) / 2"
proof -
  define u :: real where "u = 2 powi (binade x - 52)"
  define m :: real where "m = of_int (round_half_even (x / u))"
  have u: "0 < u" unfolding u_def by (rule pow2_pos)
  have "fl x - x = (m - x / u) * u"
    using u by (simp add: fl_def Let_def u_def [symmetric] m_def [symmetric] field_simps)
  then have "\<bar>fl x - x\<bar> = \<bar>m - x / u\<bar> * u"
    using u by (simp add: abs_mult)
  also have "\<dots> \<le> 1 / 2 * u"
    using round_half_even_error [of "x / u"] u unfolding m_def by (intro mult_right_mono) simp_all
  finally show ?thesis by (simp add: u_def)
qed

lemma fl_error: "\<bar>fl x - x\<bar> \<le> \<bar>x\<bar> / 2 ^ 53 + min_subnormal / 2"
proof (cases "binade x = - 1022")
  case True
  then have "binade x - 52 = - 1074" by simp
  then have "(2::real) powi (binade x - 52) = min_subnormal"
    by (simp only: min_subnormal_def)
  moreover have "0 \<le> \<bar>x\<bar> / 2 ^ 53" by simp
  ultimately show ?thesis using fl_error_ulp [of x] by linarith
next
  case False
  then have le: "2 powi (binade x) \<le> \<bar>x\<bar>" using binade_le [of x] by simp
  have "(2::real) powi (binade x + (- 52)) = 2 powi (binade x) * 2 powi (- 52)"
    by (rule pow2_split)
  then have "(2::real) powi (binade x - 52) / 2 = 2 powi (binade x) / 2 ^ 53"
    by simp
  also have "\<dots> \<le> \<bar>x\<bar> / 2 ^ 53" using le by (simp add: divide_right_mono)
  finally show ?thesis using fl_error_ulp [of x] min_subnormal_pos by linarith
qed

lemma fl_zero: "fl 0 = 0"
  by (simp add: fl_def round_half_even_def)

lemma fl_nonneg: "0 \<le> x \<Longrightarrow> 0 \<le> fl x"
  using pow2_pos [of "binade x - 52"]
  by (simp add: fl_def Let_def round_half_even_nonneg)

text \<open>Every rounded value is a whole multiple of the least subnormal.\<close>

lemma fl_multiple: "\<exists>k::int. fl x = of_int k * min_subnormal"
proof -
  define d where "d = binade x - 52 + 1074"
  have d: "0 \<le> d" using binade_lower [of x] by (simp add: d_def)
  have "binade x - 52 = d + (- 1074)" by (simp add: d_def)
  then have "(2::real) powi (binade x - 52) = 2 powi d * min_subnormal"
    by (simp only: pow2_split min_subnormal_def)
  also have "(2::real) powi d = of_int (2 ^ nat d)"
    using d by (simp add: power_int_nonneg_exp)
  finally have "fl x = of_int (round_half_even (x / 2 powi (binade x - 52)) * 2 ^ nat d)
                         * min_subnormal"
    by (simp add: fl_def Let_def)
  then show ?thesis by blast
qed

lemma double_multiple: "is_double a \<Longrightarrow> \<exists>k::int. a = of_int k * min_subnormal"
  using fl_multiple [of a] by (simp add: is_double_def)

lemma double_positive: "is_double a \<Longrightarrow> 0 < a \<Longrightarrow> min_subnormal \<le> a"
proof -
  assume "is_double a" and pos: "0 < a"
  then obtain k :: int where k: "a = of_int k * min_subnormal"
    using double_multiple by blast
  have "0 < k"
  proof (rule ccontr)
    assume "\<not> 0 < k"
    then have "of_int k \<le> (0::real)" by simp
    then have "of_int k * min_subnormal \<le> 0"
      using min_subnormal_pos by (simp add: mult_le_0_iff)
    then show False using k pos by simp
  qed
  then have "(1::real) \<le> of_int k" by simp
  then have "1 * min_subnormal \<le> of_int k * min_subnormal"
    using min_subnormal_pos by (intro mult_right_mono) simp_all
  then show ?thesis using k by simp
qed

lemma fl_eval:
  "2 powi E \<le> \<bar>x\<bar> \<Longrightarrow> \<bar>x\<bar> < 2 powi (E + 1) \<Longrightarrow> - 1022 \<le> E \<Longrightarrow> E \<le> 1023 \<Longrightarrow>
     fl x = of_int (round_half_even (x / 2 powi (E - 52))) * 2 powi (E - 52)"
  by (simp add: fl_def binade_eq Let_def)


lemma min_subnormal_small: "min_subnormal \<le> 1 / 2 ^ 55"
proof -
  have "(2::real) powi (- 1074) \<le> 2 powi (- 55)"
    by (rule power_int_increasing) simp_all
  also have "(2::real) powi (- 55) = 1 / 2 ^ 55"
    by (simp add: power_int_minus_divide)
  finally show ?thesis by (simp only: min_subnormal_def)
qed

text \<open>Coarse forms of the error bound, for values up to 2.\<close>

lemma fl_upper: "0 \<le> x \<Longrightarrow> x \<le> 2 \<Longrightarrow> fl x \<le> x + 1 / 1000"
proof -
  assume x: "0 \<le> x" "x \<le> 2"
  then have "x / 2 ^ 53 \<le> 2 / 2 ^ 53" by (simp add: divide_right_mono)
  then have "x / 2 ^ 53 + min_subnormal / 2 \<le> 1 / 1000"
    using min_subnormal_small by simp
  then show ?thesis using fl_error [of x] x by simp
qed

lemma fl_lower: "0 \<le> x \<Longrightarrow> x - x / 1000 - min_subnormal / 2 \<le> fl x"
proof -
  assume x: "0 \<le> x"
  have "x / 2 ^ 53 = x / 1000 * (1000 / 2 ^ 53)" by simp
  also have "\<dots> \<le> x / 1000 * 1" using x by (intro mult_left_mono) simp_all
  finally have "x / 2 ^ 53 \<le> x / 1000" by simp
  then show ?thesis using fl_error [of x] x by simp
qed

lemma fl_error_normal: "binade x \<noteq> - 1022 \<Longrightarrow> \<bar>fl x - x\<bar> \<le> \<bar>x\<bar> / 2 ^ 53"
proof -
  assume "binade x \<noteq> - 1022"
  then have le: "2 powi (binade x) \<le> \<bar>x\<bar>" using binade_le [of x] by simp
  have "(2::real) powi (binade x + (- 52)) = 2 powi (binade x) * 2 powi (- 52)"
    by (rule pow2_split)
  then have "(2::real) powi (binade x - 52) / 2 = 2 powi (binade x) / 2 ^ 53"
    by simp
  also have "\<dots> \<le> \<bar>x\<bar> / 2 ^ 53" using le by (simp add: divide_right_mono)
  finally show ?thesis using fl_error_ulp [of x] by linarith
qed

lemma fl_exact_subnormal:
  assumes "x = of_int k * min_subnormal" and "binade x = - 1022"
  shows "fl x = x"
proof -
  have "binade x - 52 = - 1074" using assms(2) by simp
  then have u: "(2::real) powi (binade x - 52) = min_subnormal"
    by (simp only: min_subnormal_def)
  have ms: "min_subnormal \<noteq> 0" using min_subnormal_pos by simp
  have "fl x = of_int (round_half_even (x / min_subnormal)) * min_subnormal"
    by (simp add: fl_def Let_def u)
  then show ?thesis
    using assms(1) ms by (simp add: round_half_even_of_int)
qed

text \<open>The sum of two doubles is rounded with a relative error of at most \<open>2 ^ -53\<close>.\<close>

lemma fl_sum_error:
  assumes "is_double a" and "is_double b"
  shows "\<bar>fl (a + b) - (a + b)\<bar> \<le> \<bar>a + b\<bar> / 2 ^ 53"
proof (cases "binade (a + b) = - 1022")
  case True
  obtain ka kb :: int where "a = of_int ka * min_subnormal" and "b = of_int kb * min_subnormal"
    using assms double_multiple by blast
  then have "a + b = of_int (ka + kb) * min_subnormal"
    by (simp add: distrib_right)
  then have "fl (a + b) = a + b" using True by (rule fl_exact_subnormal)
  then show ?thesis by simp
next
  case False
  then show ?thesis by (rule fl_error_normal)
qed

lemma fl_15: "fl (3 / 2) = 3 / 2"
  by (subst fl_eval [of 0]) (simp_all add: round_half_even_def)

text \<open>The doubles that the literals of the modelled code denote.\<close>

lemma fl_03: "fl (3 / 10) = 5404319552844595 / 2 ^ 54"
  by (subst fl_eval [of "- 2"]) (simp_all add: round_half_even_def)

lemma fl_07: "fl (7 / 10) = 3152519739159347 / 2 ^ 52"
  by (subst fl_eval [of "- 1"]) (simp_all add: round_half_even_def)

lemma fl_08: "fl (4 / 5) = 3602879701896397 / 2 ^ 52"
  by (subst fl_eval [of "- 1"]) (simp_all add: round_half_even_def)

lemma fl_01: "fl (1 / 10) = 3602879701896397 / 2 ^ 55"
  by (subst fl_eval [of "- 4"]) (simp_all add: round_half_even_def)

lemma fl_001: "fl (1 / 100) = 5764607523034235 / 2 ^ 59"
  by (subst fl_eval [of "- 7"]) (simp_all add: round_half_even_def)

lemma fl_004: "fl (1 / 25) = 5764607523034235 / 2 ^ 57"
  by (subst fl_eval [of "- 5"]) (simp_all add: round_half_even_def)

section \<open>Fusion: the rule, the weights and the absent inputs\<close>

lemma weights_spec:
  "0 \<le> a + b \<Longrightarrow> ml_weight a b = spec_weight_A a b \<and> dl_weight a b = spec_weight_B a b"
  using fl_nonneg [of "a + b"]
  by (auto simp: ml_weight_def dl_weight_def spec_weight_A_def spec_weight_B_def fadd_def Let_def)

lemma risk_scores_spec: "risk_scores r = spec_score r"
  by (cases r) (simp_all add: risk_scores_def spec_score_def)

lemma py_or_spec: "py_or (py_or a b) (Some s) = spec_first_present a b s"
  by (cases a; cases b) (simp_all add: py_or_def spec_first_present_def)

lemma combine_present:
  "0 \<le> conf_A + conf_B \<Longrightarrow>
     combine_predictions (Some (risk_A, conf_A, stage_A, ps_A)) (Some (risk_B, conf_B, stage_B, ps_B))
       = Inr (Fused (spec_combine (risk_A, conf_A, stage_A) (risk_B, conf_B, stage_B)))"
  by (simp add: combine_predictions_def spec_combine_def weights_spec risk_scores_spec py_or_spec
        Let_def)

text \<open>The fusion, one rounded operation after the other.\<close>

lemma weights_steps:
  assumes "fl (a + b) = t" and "0 < t" and "fl (a / t) = wa" and "fl (b / t) = wb"
  shows "ml_weight a b = wa \<and> dl_weight a b = wb"
  using assms by (simp add: ml_weight_def dl_weight_def fadd_def fdiv_def Let_def)

lemma combine_steps:
  assumes "fl (a + b) = t" and "0 < t" and "fl (a / t) = wa" and "fl (b / t) = wb"
    and "fl (wa * risk_scores ra) = pa" and "fl (wb * risk_scores rb) = pb"
    and "fl (pa + pb) = score"
    and "fl (wa * a) = ca" and "fl (wb * b) = cb" and "fl (ca + cb) = conf"
  shows "combine_predictions (Some (ra, a, sa, psa)) (Some (rb, b, sb, psb)) =
     (if score < fl 0.7 then Inr (Fused (Low, conf, None))
      else if score < fl 1.5 then
        Inr (Fused (Medium, conf, py_or (py_or sa sb) (Some Stage1)))
      else Inr (Fused (High, conf, if b > a then sb else py_or (py_or sa sb) (Some Stage2))))"
  using assms
  by (simp add: combine_predictions_def ml_weight_def dl_weight_def fadd_def fmul_def fdiv_def
        Let_def)

text \<open>
  The doubles nearest to 0.1, 0.3, 0.01 and 0.04, and two dyadic confidences.
\<close>

lemma double_01: "is_double (3602879701896397 / 2 ^ 55)"
  unfolding is_double_def by (subst fl_eval [of "- 4"]) (simp_all add: round_half_even_def)

lemma double_03: "is_double (5404319552844595 / 2 ^ 54)"
  unfolding is_double_def by (subst fl_eval [of "- 2"]) (simp_all add: round_half_even_def)

lemma double_001: "is_double (5764607523034235 / 2 ^ 59)"
  unfolding is_double_def by (subst fl_eval [of "- 7"]) (simp_all add: round_half_even_def)

lemma double_004: "is_double (5764607523034235 / 2 ^ 57)"
  unfolding is_double_def by (subst fl_eval [of "- 5"]) (simp_all add: round_half_even_def)

lemma double_78: "is_double (7 / 8)"
  unfolding is_double_def by (subst fl_eval [of "- 1"]) (simp_all add: round_half_even_def)

lemma double_58: "is_double (5 / 8)"
  unfolding is_double_def by (subst fl_eval [of "- 1"]) (simp_all add: round_half_even_def)

text \<open>
  A low result with confidence 0.1 and a high one with confidence 0.3: the weights are
  0.25 and 0.7499999999999999, the score is 1.4999999999999998, below 1.5, and the
  fused risk is Medium.
\<close>

lemma combine_low_01_high_03:
  "combine_predictions (Some (Low, 3602879701896397 / 2 ^ 55, None, psa))
     (Some (High, 5404319552844595 / 2 ^ 54, Some Stage2, psb))
     = Inr (Fused (Medium, 4503599627370495 / 2 ^ 54, Some Stage2))"
proof -
  have t: "fl (3602879701896397 / 2 ^ 55 + 5404319552844595 / 2 ^ 54) = 3602879701896397 / 2 ^ 53"
    by (subst fl_eval [of "- 2"]) (simp_all add: round_half_even_def)
  have wa: "fl ((3602879701896397 / 2 ^ 55) / (3602879701896397 / 2 ^ 53)) = 1 / 4"
    by (subst fl_eval [of "- 2"]) (simp_all add: round_half_even_def)
  have wb: "fl ((5404319552844595 / 2 ^ 54) / (3602879701896397 / 2 ^ 53)) = 6755399441055743 / 2 ^ 53"
    by (subst fl_eval [of "- 1"]) (simp_all add: round_half_even_def)
  have pa: "fl ((1 / 4) * risk_scores Low) = 0"
    by (simp add: risk_scores_def fl_zero)
  have pb: "fl ((6755399441055743 / 2 ^ 53) * risk_scores High) = 6755399441055743 / 2 ^ 52"
    by (subst fl_eval [of "0"]) (simp_all add: round_half_even_def risk_scores_def)
  have sc: "fl (0 + 6755399441055743 / 2 ^ 52) = 6755399441055743 / 2 ^ 52"
    by (subst fl_eval [of "0"]) (simp_all add: round_half_even_def)
  have ca: "fl ((1 / 4) * (3602879701896397 / 2 ^ 55)) = 3602879701896397 / 2 ^ 57"
    by (subst fl_eval [of "- 6"]) (simp_all add: round_half_even_def)
  have cb: "fl ((6755399441055743 / 2 ^ 53) * (5404319552844595 / 2 ^ 54)) = 8106479329266891 / 2 ^ 55"
    by (subst fl_eval [of "- 3"]) (simp_all add: round_half_even_def)
  have cf: "fl (3602879701896397 / 2 ^ 57 + 8106479329266891 / 2 ^ 55) = 4503599627370495 / 2 ^ 54"
    by (subst fl_eval [of "- 3"]) (simp_all add: round_half_even_def)
  have tpos: "(0::real) < 3602879701896397 / 2 ^ 53" by simp
  show ?thesis
    unfolding combine_steps [OF t tpos wa wb pa pb sc ca cb cf]
    by (simp add: fl_07 fl_15 py_or_def)
qed

text \<open>
  With confidences 0.01 and 0.03 the same two risks reach the score 1.5 exactly, and the
  fused risk is High, with the stage of the more confident side.
\<close>

lemma fl_003: "fl (3 / 100) = 1080863910568919 / 2 ^ 55"
  by (subst fl_eval [of "- 6"]) (simp_all add: round_half_even_def)

lemma double_003: "is_double (1080863910568919 / 2 ^ 55)"
  unfolding is_double_def by (subst fl_eval [of "- 6"]) (simp_all add: round_half_even_def)

lemma combine_low_001_high_003:
  "combine_predictions (Some (Low, 5764607523034235 / 2 ^ 59, None, psa)) (Some (High, 1080863910568919 / 2 ^ 55, Some Stage2, psb))
     = Inr (Fused (High, 7205759403792793 / 2 ^ 58, Some Stage2))"
proof -
  have t: "fl (5764607523034235 / 2 ^ 59 + 1080863910568919 / 2 ^ 55) = 5764607523034235 / 2 ^ 57"
    by (subst fl_eval [of "- 5"]) (simp_all add: round_half_even_def)
  have wa: "fl ((5764607523034235 / 2 ^ 59) / (5764607523034235 / 2 ^ 57)) = 1 / 4"
    by (subst fl_eval [of "- 2"]) (simp_all add: round_half_even_def)
  have wb: "fl ((1080863910568919 / 2 ^ 55) / (5764607523034235 / 2 ^ 57)) = 3 / 4"
    by (subst fl_eval [of "- 1"]) (simp_all add: round_half_even_def)
  have pa: "fl ((1 / 4) * risk_scores Low) = 0"
    by (simp add: risk_scores_def fl_zero)
  have pb: "fl ((3 / 4) * risk_scores High) = 3 / 2"
    by (subst fl_eval [of "0"]) (simp_all add: round_half_even_def risk_scores_def)
  have sc: "fl (0 + 3 / 2) = 3 / 2"
    by (subst fl_eval [of "0"]) (simp_all add: round_half_even_def)
  have ca: "fl ((1 / 4) * (5764607523034235 / 2 ^ 59)) = 5764607523034235 / 2 ^ 61"
    by (subst fl_eval [of "- 9"]) (simp_all add: round_half_even_def)
  have cb: "fl ((3 / 4) * (1080863910568919 / 2 ^ 55)) = 3242591731706757 / 2 ^ 57"
    by (subst fl_eval [of "- 6"]) (simp_all add: round_half_even_def)
  have cf: "fl (5764607523034235 / 2 ^ 61 + 3242591731706757 / 2 ^ 57) = 7205759403792793 / 2 ^ 58"
    by (subst fl_eval [of "- 6"]) (simp_all add: round_half_even_def)
  have tpos: "(0::real) < 5764607523034235 / 2 ^ 57" by simp
  show ?thesis
    unfolding combine_steps [OF t tpos wa wb pa pb sc ca cb cf]
    by (simp add: fl_07 fl_15 py_or_def)
qed

text \<open>
  C1: for two present results A and B whose confidences are doubles in [0, 1],
  \<^const>\<open>combine_predictions\<close> returns the 3-tuple that the specification's rule
  \<^const>\<open>spec_combine\<close> describes: scores 0/1/2, weights \<open>conf_A / (conf_A + conf_B)\<close>
  and \<open>conf_B / (conf_A + conf_B)\<close> (0.3 and 0.7 on a zero sum), the weighted score and
  confidence, Low without a stage below 0.7, Medium with A's stage, else B's, else Stage 1
  below 1.5, otherwise High with B's stage if B is the more confident, else A's stage,
  else B's, else Stage 2. Every sum, product and quotient is the program's rounded one.
\<close>

theorem combine_predictions_rule:
  "is_double conf_A \<Longrightarrow> is_double conf_B \<Longrightarrow>
   0 \<le> conf_A \<Longrightarrow> conf_A \<le> 1 \<Longrightarrow> 0 \<le> conf_B \<Longrightarrow> conf_B \<le> 1 \<Longrightarrow>
     combine_predictions (Some (risk_A, conf_A, stage_A, ps_A)) (Some (risk_B, conf_B, stage_B, ps_B))
       = Inr (Fused (spec_combine (risk_A, conf_A, stage_A) (risk_B, conf_B, stage_B)))"
  by (simp add: combine_predictions_def spec_combine_def weights_spec risk_scores_spec py_or_spec
        Let_def)

text \<open>
  At the doubles of 0.1 (Low) and 0.3 (High, Stage 2) the rule gives Medium at Stage 2
  with confidence 0.24999999999999994: the rounded score falls just short of 1.5. At the
  doubles of 0.01 and 0.03 it gives High.
\<close>

theorem combine_predictions_rule_witness:
  "is_double (3602879701896397 / 2 ^ 55) \<and> is_double (5404319552844595 / 2 ^ 54)
   \<and> (0::real) \<le> 3602879701896397 / 2 ^ 55 \<and> (3602879701896397 / 2 ^ 55 :: real) \<le> 1
   \<and> (0::real) \<le> 5404319552844595 / 2 ^ 54 \<and> (5404319552844595 / 2 ^ 54 :: real) \<le> 1
   \<and> fl (1 / 10) = 3602879701896397 / 2 ^ 55 \<and> fl (3 / 10) = 5404319552844595 / 2 ^ 54
   \<and> combine_predictions (Some (Low, 3602879701896397 / 2 ^ 55, None, None))
         (Some (High, 5404319552844595 / 2 ^ 54, Some Stage2, None))
       = Inr (Fused (Medium, 4503599627370495 / 2 ^ 54, Some Stage2))
   \<and> spec_combine (Low, 3602879701896397 / 2 ^ 55, None) (High, 5404319552844595 / 2 ^ 54, Some Stage2)
       = (Medium, 4503599627370495 / 2 ^ 54, Some Stage2)
   \<and> fl (1 / 100) = 5764607523034235 / 2 ^ 59 \<and> fl (3 / 100) = 1080863910568919 / 2 ^ 55
   \<and> is_double (5764607523034235 / 2 ^ 59) \<and> is_double (1080863910568919 / 2 ^ 55)
   \<and> spec_combine (Low, 5764607523034235 / 2 ^ 59, None) (High, 1080863910568919 / 2 ^ 55, Some Stage2)
       = (High, 7205759403792793 / 2 ^ 58, Some Stage2)"
proof -
  have b: "(0::real) \<le> 3602879701896397 / 2 ^ 55 \<and> (3602879701896397 / 2 ^ 55 :: real) \<le> 1
           \<and> (0::real) \<le> 5404319552844595 / 2 ^ 54 \<and> (5404319552844595 / 2 ^ 54 :: real) \<le> 1"
    by simp
  have r: "combine_predictions (Some (Low, 3602879701896397 / 2 ^ 55, None, None))
             (Some (High, 5404319552844595 / 2 ^ 54, Some Stage2, None))
           = Inr (Fused (spec_combine (Low, 3602879701896397 / 2 ^ 55, None)
                           (High, 5404319552844595 / 2 ^ 54, Some Stage2)))"
    using b by (intro combine_predictions_rule double_01 double_03) simp_all
  have s: "spec_combine (Low, 3602879701896397 / 2 ^ 55, None) (High, 5404319552844595 / 2 ^ 54, Some Stage2)
             = (Medium, 4503599627370495 / 2 ^ 54, Some Stage2)"
    using r combine_low_01_high_03 [of None None] by simp
  have b2: "(0::real) \<le> 5764607523034235 / 2 ^ 59 \<and> (5764607523034235 / 2 ^ 59 :: real) \<le> 1
            \<and> (0::real) \<le> 1080863910568919 / 2 ^ 55 \<and> (1080863910568919 / 2 ^ 55 :: real) \<le> 1"
    by simp
  have r2: "combine_predictions (Some (Low, 5764607523034235 / 2 ^ 59, None, None))
              (Some (High, 1080863910568919 / 2 ^ 55, Some Stage2, None))
            = Inr (Fused (spec_combine (Low, 5764607523034235 / 2 ^ 59, None)
                            (High, 1080863910568919 / 2 ^ 55, Some Stage2)))"
    using b2 by (intro combine_predictions_rule double_001 double_003) simp_all
  have s2: "spec_combine (Low, 5764607523034235 / 2 ^ 59, None) (High, 1080863910568919 / 2 ^ 55, Some Stage2)
              = (High, 7205759403792793 / 2 ^ 58, Some Stage2)"
    using r2 combine_low_001_high_003 [of None None] by simp
  show ?thesis
    using b s s2 combine_low_01_high_03 [of None None] double_01 double_03 double_001 double_003
      fl_01 fl_03 fl_001 fl_003
    by (intro conjI) simp_all
qed

text \<open>
  C2, as the code has it: when both results are absent, \<^const>\<open>combine_predictions\<close>
  raises nothing and returns \<^verbatim>\<open>None\<close>.
\<close>

theorem combine_predictions_both_absent:
  "combine_predictions None None = Inr (Returned None)"
  by (simp add: combine_predictions_def)

text \<open>C2 as stated asks for an error; the call with two absent results is not one.\<close>

theorem combine_predictions_both_absent_no_error:
  "\<not> isl (combine_predictions None None)"
  by (simp add: combine_predictions_def)

lemma weights_near_one:
  assumes da: "is_double a" and db: "is_double b" and a: "0 \<le> a" and b: "0 \<le> b"
    and pos: "0 < a + b"
  shows "0 < fl (a + b)
    \<and> \<bar>fl (a / fl (a + b)) - a / (a + b)\<bar> \<le> 1 / 2 ^ 51
    \<and> \<bar>fl (b / fl (a + b)) - b / (a + b)\<bar> \<le> 1 / 2 ^ 51
    \<and> \<bar>fl (a / fl (a + b)) + fl (b / fl (a + b)) - 1\<bar> \<le> 1 / 2 ^ 51"
proof -
  define s where "s = a + b"
  define t where "t = fl s"
  define e :: real where "e = 1 / 2 ^ 53"
  have e: "0 < e" "e \<le> 1 / 1000" by (simp_all add: e_def)
  have ts: "\<bar>t - s\<bar> \<le> s * e"
    using fl_sum_error [OF da db] pos by (simp add: t_def s_def e_def)
  have spos: "0 < s" using pos by (simp add: s_def)
  have "s * e \<le> s * (1 / 1000)" using spos e by (intro mult_left_mono) simp_all
  then have tpos: "0 < t" using ts spos by argo
  define x where "x = a / t"
  define y where "y = b / t"
  have x0: "0 \<le> x" and y0: "0 \<le> y" using a b tpos by (simp_all add: x_def y_def)
  have xy: "x + y = s / t" by (simp add: x_def y_def s_def add_divide_distrib)
  have "s * e * e \<le> s * e * 1" using spos e by (intro mult_left_mono) simp_all
  then have see: "s * e * e \<le> s * e" by simp
  have up: "s \<le> t * (1 + 2 * e)"
  proof -
    have "s - s * e \<le> t" using ts by argo
    then have "(s - s * e) * (1 + 2 * e) \<le> t * (1 + 2 * e)"
      using e by (intro mult_right_mono) simp_all
    moreover have "(s - s * e) * (1 + 2 * e) = s + s * e - 2 * (s * e * e)"
      by (simp add: algebra_simps)
    moreover have "2 * (s * e * e) \<le> s * e"
    proof -
      have "s * e * (2 * e) \<le> s * e * 1" using spos e by (intro mult_left_mono) simp_all
      then show ?thesis by (simp add: algebra_simps)
    qed
    ultimately show ?thesis by argo
  qed
  have lo: "t * (1 - e) \<le> s"
  proof -
    have "t \<le> s + s * e" using ts by argo
    then have "t * (1 - e) \<le> (s + s * e) * (1 - e)"
      using e by (intro mult_right_mono) simp_all
    moreover have "(s + s * e) * (1 - e) = s - s * e * e" by (simp add: algebra_simps)
    moreover have "0 \<le> s * e * e" using spos e by simp
    ultimately show ?thesis by argo
  qed
  have xyu: "x + y \<le> 1 + 2 * e" unfolding xy using up tpos by (simp add: divide_le_eq mult.commute)
  have xyl: "1 - e \<le> x + y" unfolding xy using lo tpos by (simp add: le_divide_eq mult.commute)
  have ex: "\<bar>fl x - x\<bar> \<le> x * e + min_subnormal / 2"
    using fl_error [of x] x0 by (simp add: e_def)
  have ey: "\<bar>fl y - y\<bar> \<le> y * e + min_subnormal / 2"
    using fl_error [of y] y0 by (simp add: e_def)
  have "(x + y) * e \<le> (1 + 2 * e) * e" using xyu e by (intro mult_right_mono) simp_all
  moreover have "(1 + 2 * e) * e \<le> (1 + 2 * (1 / 1000)) * e"
    using e by (intro mult_right_mono) simp_all
  ultimately have xye: "x * e + y * e \<le> (1 + 2 / 1000) * e" by (simp add: distrib_right)
  have ms: "min_subnormal \<le> e / 4" using min_subnormal_small by (simp add: e_def)
  have sum: "\<bar>fl x + fl y - 1\<bar> \<le> 4 * e"
    using ex ey xyu xyl xye ms e by argo
  have "t / s - 1 = (t - s) / s" using spos by (simp add: field_simps)
  then have "\<bar>t / s - 1\<bar> = \<bar>t - s\<bar> / s" using spos by simp
  also have "\<dots> \<le> s * e / s" using ts spos by (intro divide_right_mono) simp_all
  finally have tsr: "\<bar>t / s - 1\<bar> \<le> e" using spos by simp
  have xe0: "0 \<le> x * e" and ye0: "0 \<le> y * e" using x0 y0 e by simp_all
  have "x - a / s = x * (1 - t / s)" using tpos spos by (simp add: x_def field_simps)
  then have "\<bar>x - a / s\<bar> = x * \<bar>1 - t / s\<bar>" using x0 by (simp add: abs_mult)
  also have "\<dots> \<le> x * e" using tsr x0 by (intro mult_left_mono) simp_all
  finally have xa: "\<bar>x - a / s\<bar> \<le> x * e" .
  have "y - b / s = y * (1 - t / s)" using tpos spos by (simp add: y_def field_simps)
  then have "\<bar>y - b / s\<bar> = y * \<bar>1 - t / s\<bar>" using y0 by (simp add: abs_mult)
  also have "\<dots> \<le> y * e" using tsr y0 by (intro mult_left_mono) simp_all
  finally have yb: "\<bar>y - b / s\<bar> \<le> y * e" .
  define xe where "xe = x * e"
  define ye where "ye = y * e"
  define qa where "qa = a / s"
  define qb where "qb = b / s"
  have l: "xe + ye \<le> (1 + 2 / 1000) * e" "0 \<le> xe" "0 \<le> ye"
    using xye xe0 ye0 by (simp_all add: xe_def ye_def)
  have "\<bar>fl x - x\<bar> \<le> xe + min_subnormal / 2" "\<bar>x - qa\<bar> \<le> xe"
    using ex xa by (simp_all add: xe_def qa_def)
  then have "\<bar>fl x - qa\<bar> \<le> 4 * e" using l ms e by argo
  then have wa: "\<bar>fl x - a / s\<bar> \<le> 4 * e" by (simp add: qa_def)
  have "\<bar>fl y - y\<bar> \<le> ye + min_subnormal / 2" "\<bar>y - qb\<bar> \<le> ye"
    using ey yb by (simp_all add: ye_def qb_def)
  then have "\<bar>fl y - qb\<bar> \<le> 4 * e" using l ms e by argo
  then have wb: "\<bar>fl y - b / s\<bar> \<le> 4 * e" by (simp add: qb_def)
  show ?thesis
    using tpos sum wa wb by (simp add: x_def y_def t_def s_def e_def)
qed

lemma weights_001_004:
  "ml_weight (5764607523034235 / 2 ^ 59) (5764607523034235 / 2 ^ 57) = 7205759403792793 / 2 ^ 55
     \<and> dl_weight (5764607523034235 / 2 ^ 59) (5764607523034235 / 2 ^ 57) = 7205759403792793 / 2 ^ 53"
proof -
  have t: "fl (5764607523034235 / 2 ^ 59 + 5764607523034235 / 2 ^ 57) = 3602879701896397 / 2 ^ 56"
    by (subst fl_eval [of "- 5"]) (simp_all add: round_half_even_def)
  have wa: "fl ((5764607523034235 / 2 ^ 59) / (3602879701896397 / 2 ^ 56)) = 7205759403792793 / 2 ^ 55"
    by (subst fl_eval [of "- 3"]) (simp_all add: round_half_even_def)
  have wb: "fl ((5764607523034235 / 2 ^ 57) / (3602879701896397 / 2 ^ 56)) = 7205759403792793 / 2 ^ 53"
    by (subst fl_eval [of "- 1"]) (simp_all add: round_half_even_def)
  have tpos: "(0::real) < 3602879701896397 / 2 ^ 56" by simp
  show ?thesis using weights_steps [OF t tpos wa wb] by simp
qed

text \<open>
  C4, as the code has it: for double confidences \<open>a\<close> and \<open>b\<close> in [0, 1] with
  \<open>a + b > 0\<close>, the weights that \<^const>\<open>combine_predictions\<close> computes are the rounded
  quotients of \<open>a\<close> and \<open>b\<close> by the rounded sum; each is within \<open>2 ^ -51\<close> of
  \<open>a / (a + b)\<close> and \<open>b / (a + b)\<close>, and their sum is within \<open>2 ^ -51\<close> of 1.
\<close>

theorem fusion_weights_sum_near_one:
  "is_double a \<Longrightarrow> is_double b \<Longrightarrow> 0 \<le> a \<Longrightarrow> a \<le> 1 \<Longrightarrow> 0 \<le> b \<Longrightarrow> b \<le> 1 \<Longrightarrow> 0 < a + b \<Longrightarrow>
     ml_weight a b = fl (a / fl (a + b)) \<and> dl_weight a b = fl (b / fl (a + b))
     \<and> \<bar>ml_weight a b - a / (a + b)\<bar> \<le> 1 / 2 ^ 51
     \<and> \<bar>dl_weight a b - b / (a + b)\<bar> \<le> 1 / 2 ^ 51
     \<and> \<bar>ml_weight a b + dl_weight a b - 1\<bar> \<le> 1 / 2 ^ 51"
proof -
  assume da: "is_double a" and db: "is_double b" and a: "0 \<le> a" and b: "0 \<le> b"
    and pos: "0 < a + b"
  note n = weights_near_one [OF da db a b pos]
  have "ml_weight a b = fl (a / fl (a + b)) \<and> dl_weight a b = fl (b / fl (a + b))"
    using n by (simp add: ml_weight_def dl_weight_def fadd_def fdiv_def Let_def)
  then show ?thesis using n by simp
qed

text \<open>
  At the doubles of 0.01 and 0.04 the weights are 0.19999999999999998 and
  0.7999999999999999; their sum falls short of 1 by \<open>3 / 2 ^ 55\<close>.
\<close>

theorem fusion_weights_sum_near_one_witness:
  "fl (1 / 100) = 5764607523034235 / 2 ^ 59 \<and> fl (4 / 100) = 5764607523034235 / 2 ^ 57
   \<and> is_double (5764607523034235 / 2 ^ 59) \<and> is_double (5764607523034235 / 2 ^ 57)
   \<and> (0::real) \<le> 5764607523034235 / 2 ^ 59 \<and> (5764607523034235 / 2 ^ 59 :: real) \<le> 1
   \<and> (0::real) \<le> 5764607523034235 / 2 ^ 57 \<and> (5764607523034235 / 2 ^ 57 :: real) \<le> 1
   \<and> (0::real) < 5764607523034235 / 2 ^ 59 + 5764607523034235 / 2 ^ 57
   \<and> ml_weight (5764607523034235 / 2 ^ 59) (5764607523034235 / 2 ^ 57) = 7205759403792793 / 2 ^ 55
   \<and> dl_weight (5764607523034235 / 2 ^ 59) (5764607523034235 / 2 ^ 57) = 7205759403792793 / 2 ^ 53
   \<and> \<bar>ml_weight (5764607523034235 / 2 ^ 59) (5764607523034235 / 2 ^ 57)
        + dl_weight (5764607523034235 / 2 ^ 59) (5764607523034235 / 2 ^ 57) - 1\<bar> = 3 / 2 ^ 55
   \<and> (3 / 2 ^ 55 :: real) \<le> 1 / 2 ^ 51"
proof -
  have b: "(0::real) \<le> 5764607523034235 / 2 ^ 59 \<and> (5764607523034235 / 2 ^ 59 :: real) \<le> 1
           \<and> (0::real) \<le> 5764607523034235 / 2 ^ 57 \<and> (5764607523034235 / 2 ^ 57 :: real) \<le> 1
           \<and> (0::real) < 5764607523034235 / 2 ^ 59 + 5764607523034235 / 2 ^ 57"
    by simp
  have w: "ml_weight (5764607523034235 / 2 ^ 59) (5764607523034235 / 2 ^ 57) = 7205759403792793 / 2 ^ 55"
    "dl_weight (5764607523034235 / 2 ^ 59) (5764607523034235 / 2 ^ 57) = 7205759403792793 / 2 ^ 53"
    using weights_001_004 by simp_all
  have n: "\<bar>ml_weight (5764607523034235 / 2 ^ 59) (5764607523034235 / 2 ^ 57)
            + dl_weight (5764607523034235 / 2 ^ 59) (5764607523034235 / 2 ^ 57) - 1\<bar> \<le> 1 / 2 ^ 51"
    using b by (intro fusion_weights_sum_near_one [THEN conjunct2, THEN conjunct2, THEN conjunct2,
          THEN conjunct2] double_001 double_004) simp_all
  have s: "\<bar>ml_weight (5764607523034235 / 2 ^ 59) (5764607523034235 / 2 ^ 57)
            + dl_weight (5764607523034235 / 2 ^ 59) (5764607523034235 / 2 ^ 57) - 1\<bar> = 3 / 2 ^ 55"
    unfolding w by simp
  have c: "(3 / 2 ^ 55 :: real) \<le> 1 / 2 ^ 51" using n unfolding s .
  have l: "fl (1 / 100) = 5764607523034235 / 2 ^ 59" "fl (4 / 100) = 5764607523034235 / 2 ^ 57"
    using fl_001 fl_004 by simp_all
  from l double_001 double_004 b w s c show ?thesis by (intro conjI) (elim conjE, assumption)+
qed

text \<open>
  C4 as stated asks for a sum of exactly 1. At the doubles of 0.01 and 0.04 neither the
  exact sum of the two weights nor the rounded sum that Python's \<^verbatim>\<open>+\<close> gives is 1.
\<close>

theorem fusion_weights_sum_not_one:
  "fl (1 / 100) = 5764607523034235 / 2 ^ 59 \<and> fl (4 / 100) = 5764607523034235 / 2 ^ 57
   \<and> (0::real) \<le> 5764607523034235 / 2 ^ 59 \<and> (0::real) \<le> 5764607523034235 / 2 ^ 57
   \<and> (0::real) < 5764607523034235 / 2 ^ 59 + 5764607523034235 / 2 ^ 57
   \<and> ml_weight (5764607523034235 / 2 ^ 59) (5764607523034235 / 2 ^ 57)
        + dl_weight (5764607523034235 / 2 ^ 59) (5764607523034235 / 2 ^ 57) \<noteq> 1
   \<and> fadd (ml_weight (5764607523034235 / 2 ^ 59) (5764607523034235 / 2 ^ 57))
        (dl_weight (5764607523034235 / 2 ^ 59) (5764607523034235 / 2 ^ 57)) \<noteq> 1"
proof -
  have w: "ml_weight (5764607523034235 / 2 ^ 59) (5764607523034235 / 2 ^ 57) = 7205759403792793 / 2 ^ 55"
    "dl_weight (5764607523034235 / 2 ^ 59) (5764607523034235 / 2 ^ 57) = 7205759403792793 / 2 ^ 53"
    using weights_001_004 by simp_all
  have f: "fadd (7205759403792793 / 2 ^ 55) (7205759403792793 / 2 ^ 53)
             = 9007199254740991 / 2 ^ 53"
    unfolding fadd_def by (subst fl_eval [of "- 1"]) (simp_all add: round_half_even_def)
  have l: "fl (1 / 100) = 5764607523034235 / 2 ^ 59" "fl (4 / 100) = 5764607523034235 / 2 ^ 57"
    using fl_001 fl_004 by simp_all
  show ?thesis unfolding w f l by simp
qed

text \<open>
  C5: when exactly one result is present, \<^const>\<open>combine_predictions\<close> returns that
  result as it is, whichever side it stands on.
\<close>

theorem combine_predictions_one_absent:
  "combine_predictions (Some r) None = Inr (Returned (Some r))
     \<and> combine_predictions None (Some r) = Inr (Returned (Some r))"
  by (simp add: combine_predictions_def)

section \<open>The stage invariant\<close>

lemma risk_levels_nth:
  "prediction < length risk_levels \<Longrightarrow>
     risk_levels ! prediction = (if prediction = 0 then Low else if prediction = 1 then Medium else High)"
  by (cases prediction; simp add: risk_levels_def; rename_tac k; case_tac k; simp)

lemma ml_predict_stage:
  "ml_predict m f = Inr (r, c, stg, ps) \<Longrightarrow> spec_stage_invariant r stg"
  unfolding ml_predict_def Let_def
  by (auto simp: risk_levels_nth spec_stage_invariant_def split: option.splits if_splits)

lemma class_mapping_stage:
  "class_mapping k = Some (r, stg) \<Longrightarrow> spec_stage_invariant r stg"
  by (auto simp: class_mapping_def spec_stage_invariant_def split: if_splits)

lemma dl_predict_stage:
  "dl_predict loader d image_path = Inr (Some r, c, stg, ps) \<Longrightarrow> spec_stage_invariant r stg"
  by (auto simp: dl_predict_def Let_def dest: class_mapping_stage
        split: option.splits sum.splits)

lemma spec_score_range: "0 \<le> spec_score r \<and> spec_score r \<le> 2"
  by (simp add: spec_score_def)

text \<open>
  The weight of the strictly less confident side stays well below three quarters: the
  rounded sum is more than 10/7 of the smaller confidence.
\<close>

lemma weight_of_less_confident:
  assumes d: "is_double a" and a: "0 \<le> a" and ab: "a < b"
  shows "0 \<le> spec_weight_A a b \<and> spec_weight_A a b \<le> 71 / 100"
proof (cases "fl (a + b) = 0")
  case True
  have "fl (3 / 10) \<le> 3 / 10 + 1 / 1000" by (rule fl_upper) simp_all
  moreover have "0 \<le> fl (3 / 10)" by (rule fl_nonneg) simp
  ultimately show ?thesis using True by (simp add: spec_weight_A_def fadd_def)
next
  case False
  define t where "t = fl (a + b)"
  have t0: "0 \<le> t" unfolding t_def using a ab by (intro fl_nonneg) simp
  then have tpos: "0 < t" using False by (simp add: t_def)
  have tl: "(a + b) - (a + b) / 1000 - min_subnormal / 2 \<le> t"
    unfolding t_def using a ab by (intro fl_lower) simp
  define r where "r = a / t"
  have q: "r \<le> 7 / 10"
  proof (cases "a = 0")
    case True
    then show ?thesis by (simp add: r_def)
  next
    case False
    then have "min_subnormal \<le> a" using d a by (intro double_positive) simp_all
    then have "a \<le> 7 / 10 * t" using tl ab a by argo
    then show ?thesis using tpos by (simp add: r_def divide_le_eq)
  qed
  have q0: "0 \<le> r" using a t0 by (simp add: r_def)
  have "fl r \<le> r + 1 / 1000" using q0 q by (intro fl_upper) simp_all
  then have "fl r \<le> 71 / 100" using q by linarith
  moreover have "0 \<le> fl r" using q0 by (rule fl_nonneg)
  ultimately show ?thesis
    using False by (simp add: spec_weight_A_def fadd_def fdiv_def t_def r_def)
qed

lemma score_of_less_confident:
  assumes w: "0 \<le> w" "w \<le> 71 / 100" and s: "0 \<le> s" "s \<le> 2"
  shows "fadd (fmul w s) (fmul w' 0) < fl 1.5"
proof -
  define p where "p = w * s"
  define q where "q = fl p"
  have ws: "0 \<le> p" using w s by (simp add: p_def)
  have "w * s \<le> 71 / 100 * 2" using w s by (intro mult_mono) simp_all
  then have ws2: "p \<le> 142 / 100" by (simp add: p_def)
  have q0: "0 \<le> q" unfolding q_def using ws by (rule fl_nonneg)
  have "q \<le> p + 1 / 1000" unfolding q_def using ws ws2 by (intro fl_upper) simp_all
  then have qb: "q \<le> 143 / 100" using ws2 by linarith
  have "fl q \<le> q + 1 / 1000" using q0 qb by (intro fl_upper) simp_all
  then have "fl q < 3 / 2" using qb by linarith
  then show ?thesis by (simp add: fadd_def fmul_def fl_15 fl_zero q_def p_def)
qed


text \<open>
  The only way to a missing stage on a high risk is the branch that takes B's stage; but
  a B without a stage is Low, and then the score stays below 1.5.
\<close>

lemma first_present_some: "spec_first_present a b s \<noteq> None"
  by (simp add: spec_first_present_def)

lemma spec_combine_stage:
  assumes A: "spec_stage_invariant risk_A stage_A" and B: "spec_stage_invariant risk_B stage_B"
    and d: "is_double conf_A" and a: "0 \<le> conf_A"
    and res: "spec_combine (risk_A, conf_A, stage_A) (risk_B, conf_B, stage_B) = (r, c, stg)"
  shows "spec_stage_invariant r stg"
proof (cases "conf_A < conf_B \<and> stage_B = None")
  case False
  then show ?thesis
    using res first_present_some [of stage_A stage_B]
    by (auto simp: spec_combine_def Let_def spec_stage_invariant_def split: if_splits)
next
  case True
  then have "risk_B = Low" using B by (auto simp: spec_stage_invariant_def split: if_splits)
  then have sB: "spec_score risk_B = 0" by (simp add: spec_score_def)
  have w: "0 \<le> spec_weight_A conf_A conf_B \<and> spec_weight_A conf_A conf_B \<le> 71 / 100"
    using d a True by (intro weight_of_less_confident) simp_all
  have score: "fadd (fmul (spec_weight_A conf_A conf_B) (spec_score risk_A))
                 (fmul (spec_weight_B conf_A conf_B) (spec_score risk_B)) < fl 1.5"
    unfolding sB using w spec_score_range [of risk_A]
    by (intro score_of_less_confident) simp_all
  show ?thesis
    using res score first_present_some [of stage_A stage_B]
    by (auto simp: spec_combine_def Let_def spec_stage_invariant_def split: if_splits)
qed

lemma ml_loaded_predicts:
  "ml_predict ml_loaded patient_raised_bp
     = Inr (High, 7 / 8, Some Stage3, Some [1 / 16, 1 / 16, 7 / 8])"
  by (simp add: ml_predict_def ml_loaded_def forest_class2_def risk_levels_def fl_08 Let_def)

lemma dl_loaded_predicts:
  "dl_predict one_scan dl_loaded ''scan.png''
     = Inr (Some High, Some (5 / 8), Some Stage2, Some [1 / 8, 1 / 8, 5 / 8, 1 / 8])"
  by (simp add: dl_predict_def dl_loaded_def one_scan_def preprocess_image_def net_class2_def
        np_argmax_def class_mapping_def Let_def)

lemma combine_high_78_high_58:
  "combine_predictions (Some (High, 7 / 8, Some Stage3, psa)) (Some (High, 5 / 8, Some Stage2, psb))
     = Inr (Fused (High, 1735762356382379 / 2 ^ 51, Some Stage3))"
proof -
  have t: "fl (7 / 8 + 5 / 8) = 3 / 2"
    by (subst fl_eval [of "0"]) (simp_all add: round_half_even_def)
  have wa: "fl ((7 / 8) / (3 / 2)) = 5254199565265579 / 2 ^ 53"
    by (subst fl_eval [of "- 1"]) (simp_all add: round_half_even_def)
  have wb: "fl ((5 / 8) / (3 / 2)) = 7505999378950827 / 2 ^ 54"
    by (subst fl_eval [of "- 2"]) (simp_all add: round_half_even_def)
  have pa: "fl ((5254199565265579 / 2 ^ 53) * risk_scores High) = 5254199565265579 / 2 ^ 52"
    by (subst fl_eval [of "0"]) (simp_all add: round_half_even_def risk_scores_def)
  have pb: "fl ((7505999378950827 / 2 ^ 54) * risk_scores High) = 7505999378950827 / 2 ^ 53"
    by (subst fl_eval [of "- 1"]) (simp_all add: round_half_even_def risk_scores_def)
  have sc: "fl (5254199565265579 / 2 ^ 52 + 7505999378950827 / 2 ^ 53) = 2"
    by (subst fl_eval [of "1"]) (simp_all add: round_half_even_def)
  have ca: "fl ((5254199565265579 / 2 ^ 53) * (7 / 8)) = 2298712309803691 / 2 ^ 52"
    by (subst fl_eval [of "- 1"]) (simp_all add: round_half_even_def)
  have cb: "fl ((7505999378950827 / 2 ^ 54) * (5 / 8)) = 4691249611844267 / 2 ^ 54"
    by (subst fl_eval [of "- 2"]) (simp_all add: round_half_even_def)
  have cf: "fl (2298712309803691 / 2 ^ 52 + 4691249611844267 / 2 ^ 54) = 1735762356382379 / 2 ^ 51"
    by (subst fl_eval [of "- 1"]) (simp_all add: round_half_even_def)
  have tpos: "(0::real) < 3 / 2" by simp
  show ?thesis
    unfolding combine_steps [OF t tpos wa wb pa pb sc ca cb cf]
    by (simp add: fl_07 fl_15 py_or_def)
qed

text \<open>
  C3: every result of the tabular classifier's \<^verbatim>\<open>predict\<close>, every result of the image
  classifier's \<^verbatim>\<open>predict\<close> that carries a risk, and the result of
  \<^const>\<open>combine_predictions\<close> on two present inputs that satisfy the invariant and have
  confidences in [0, 1] (doubles, as every Python float is; such a call always returns a
  fused triple), has no stage when its risk is Low and has a stage when its risk is Medium
  or High.
\<close>

theorem stage_invariant_results:
  "(ml_predict m f = Inr (r1, c1, s1, p1) \<longrightarrow> spec_stage_invariant r1 s1)
   \<and> (dl_predict loader d image_path = Inr (Some r2, c2, s2, p2) \<longrightarrow> spec_stage_invariant r2 s2)
   \<and> (spec_stage_invariant risk_A stage_A \<and> spec_stage_invariant risk_B stage_B
        \<and> is_double conf_A \<and> is_double conf_B
        \<and> 0 \<le> conf_A \<and> conf_A \<le> 1 \<and> 0 \<le> conf_B \<and> conf_B \<le> 1 \<longrightarrow>
      (\<exists>r3 c3 s3.
         combine_predictions (Some (risk_A, conf_A, stage_A, ps_A))
           (Some (risk_B, conf_B, stage_B, ps_B)) = Inr (Fused (r3, c3, s3))
         \<and> spec_stage_invariant r3 s3))"
proof (intro conjI impI)
  assume "ml_predict m f = Inr (r1, c1, s1, p1)"
  then show "spec_stage_invariant r1 s1" by (rule ml_predict_stage)
next
  assume "dl_predict loader d image_path = Inr (Some r2, c2, s2, p2)"
  then show "spec_stage_invariant r2 s2" by (rule dl_predict_stage)
next
  assume h: "spec_stage_invariant risk_A stage_A \<and> spec_stage_invariant risk_B stage_B
        \<and> is_double conf_A \<and> is_double conf_B
        \<and> 0 \<le> conf_A \<and> conf_A \<le> 1 \<and> 0 \<le> conf_B \<and> conf_B \<le> 1"
  obtain r3 c3 s3 where
    res: "spec_combine (risk_A, conf_A, stage_A) (risk_B, conf_B, stage_B) = (r3, c3, s3)"
    by (cases "spec_combine (risk_A, conf_A, stage_A) (risk_B, conf_B, stage_B)") auto
  have "spec_stage_invariant r3 s3"
    using h res by (auto elim: spec_combine_stage)
  moreover have "combine_predictions (Some (risk_A, conf_A, stage_A, ps_A))
           (Some (risk_B, conf_B, stage_B, ps_B)) = Inr (Fused (r3, c3, s3))"
    using h by (simp add: combine_present res)
  ultimately show "\<exists>r3 c3 s3.
         combine_predictions (Some (risk_A, conf_A, stage_A, ps_A))
           (Some (risk_B, conf_B, stage_B, ps_B)) = Inr (Fused (r3, c3, s3))
         \<and> spec_stage_invariant r3 s3" by blast
qed

text \<open>
  The forest answers High with probability 7/8, hence Stage 3; the network answers class
  2, High at Stage 2 with confidence 5/8; fused, the two give High at Stage 3.
\<close>

theorem stage_invariant_results_witness:
  "ml_predict ml_loaded patient_raised_bp
       = Inr (High, 7 / 8, Some Stage3, Some [1 / 16, 1 / 16, 7 / 8])
   \<and> spec_stage_invariant High (Some Stage3)
   \<and> dl_predict one_scan dl_loaded ''scan.png''
       = Inr (Some High, Some (5 / 8), Some Stage2, Some [1 / 8, 1 / 8, 5 / 8, 1 / 8])
   \<and> spec_stage_invariant High (Some Stage2)
   \<and> is_double (7 / 8) \<and> is_double (5 / 8)
   \<and> (0::real) \<le> 7 / 8 \<and> (7 / 8 :: real) \<le> 1 \<and> (0::real) \<le> 5 / 8 \<and> (5 / 8 :: real) \<le> 1
   \<and> combine_predictions (Some (High, 7 / 8, Some Stage3, Some [1 / 16, 1 / 16, 7 / 8]))
        (Some (High, 5 / 8, Some Stage2, None))
       = Inr (Fused (High, 1735762356382379 / 2 ^ 51, Some Stage3))"
proof -
  note t = stage_invariant_results [of ml_loaded patient_raised_bp High "7 / 8" "Some Stage3"
      "Some [1 / 16, 1 / 16, 7 / 8]" one_scan dl_loaded "''scan.png''" High "Some (5 / 8)"
      "Some Stage2" "Some [1 / 8, 1 / 8, 5 / 8, 1 / 8]" High "Some Stage3" High "Some Stage2"
      "7 / 8" "5 / 8" "Some [1 / 16, 1 / 16, 7 / 8]" None]
  show ?thesis
    using t ml_loaded_predicts dl_loaded_predicts double_78 double_58
      combine_high_78_high_58 [of "Some [1 / 16, 1 / 16, 7 / 8]" None]
    by simp
qed

section \<open>Errors of the classifiers\<close>

lemma argmax_message:
  "ValueError ''attempt to get argmax of an empty sequence'' \<noteq> model_not_loaded"
  by (simp add: model_not_loaded_def)

lemma other_errors: "IndexError \<noteq> model_not_loaded \<and> KeyError \<noteq> model_not_loaded"
  by (simp add: model_not_loaded_def)

lemma ml_predict_not_loaded: "(ml_predict m f = Inl model_not_loaded) = (model m = None)"
  unfolding ml_predict_def Let_def
  by (simp add: other_errors split: option.split)

lemma np_argmax_error: "np_argmax xs = Inl e \<Longrightarrow> e \<noteq> model_not_loaded"
  by (auto simp: np_argmax_def argmax_message split: list.splits)

lemma dl_predict_not_loaded:
  "(dl_predict loader d image_path = Inl model_not_loaded) = (keras_model d = None)"
  unfolding dl_predict_def Let_def
  by (auto simp: other_errors dest: np_argmax_error split: option.splits sum.splits)

text \<open>
  C8: each classifier's \<^verbatim>\<open>predict\<close> raises the "model not loaded" error exactly when
  its model attribute is \<^verbatim>\<open>None\<close>, that is, before \<^verbatim>\<open>train\<close> or \<^verbatim>\<open>load\<close> has set it;
  with a model present that error is never raised.
\<close>

theorem model_not_loaded_iff_absent:
  "(ml_predict m f = Inl model_not_loaded) = (model m = None)
   \<and> (dl_predict loader d image_path = Inl model_not_loaded) = (keras_model d = None)"
  by (simp add: ml_predict_not_loaded dl_predict_not_loaded)

text \<open>Both directions at concrete classifiers, with and without a model.\<close>

theorem model_not_loaded_iff_absent_witness:
  "ml_predict ml_unloaded patient_raised_bp = Inl model_not_loaded
   \<and> dl_predict one_scan dl_unloaded ''scan.png'' = Inl model_not_loaded
   \<and> ml_predict ml_loaded patient_raised_bp \<noteq> Inl model_not_loaded
   \<and> dl_predict one_scan dl_loaded ''scan.png'' \<noteq> Inl model_not_loaded"
  using model_not_loaded_iff_absent [of ml_unloaded patient_raised_bp one_scan dl_unloaded "''scan.png''"]
    model_not_loaded_iff_absent [of ml_loaded patient_raised_bp one_scan dl_loaded "''scan.png''"]
  by (simp add: ml_unloaded_def ml_loaded_def dl_unloaded_def dl_loaded_def)

text \<open>
  C9, as the code has it: with a model loaded and an image that cannot be decoded, the
  image classifier's \<^verbatim>\<open>predict\<close> raises nothing and returns the tuple of four
  \<^verbatim>\<open>None\<close>; the request handler then takes the tabular risk, confidence and stage as
  the final ones (or fails as the tabular classifier fails).
\<close>

theorem dl_predict_undecodable:
  "keras_model d = Some net \<Longrightarrow> loader image_path (img_height d, img_width d) = None \<Longrightarrow>
     dl_predict loader d image_path = Inr (None, None, None, None)
     \<and> predict_stroke loader ml d f (Some image_path)
         = (case ml_predict ml f of
              Inl e \<Rightarrow> Inl e
            | Inr (ml_risk, ml_prob, ml_stage, ml_probs) \<Rightarrow> Inr (ml_risk, ml_prob, ml_stage))"
  by (simp add: dl_predict_def preprocess_image_def predict_stroke_def split: sum.split)

text \<open>An unreadable file next to a loaded network and a loaded forest.\<close>

theorem dl_predict_undecodable_witness:
  "keras_model dl_loaded = Some net_class2
   \<and> one_scan ''broken.png'' (img_height dl_loaded, img_width dl_loaded) = None
   \<and> dl_predict one_scan dl_loaded ''broken.png'' = Inr (None, None, None, None)
   \<and> predict_stroke one_scan ml_loaded dl_loaded patient_raised_bp (Some ''broken.png'')
       = Inr (High, 7 / 8, Some Stage3)"
proof -
  have k: "keras_model dl_loaded = Some net_class2" by (simp add: dl_loaded_def)
  have l: "one_scan ''broken.png'' (img_height dl_loaded, img_width dl_loaded) = None"
    by (simp add: one_scan_def)
  show ?thesis
    using dl_predict_undecodable [where d = dl_loaded and net = net_class2 and loader = one_scan
        and image_path = "''broken.png''" and ml = ml_loaded and f = patient_raised_bp] k l
    by (simp add: ml_loaded_predicts)
qed

text \<open>
  C9 as stated asks for a decode error that reaches the caller; on the unreadable file
  \<^verbatim>\<open>predict\<close> returns normally.
\<close>

theorem dl_predict_undecodable_no_error:
  "\<not> isl (dl_predict one_scan dl_loaded ''broken.png'')"
  by (simp add: dl_predict_def preprocess_image_def dl_loaded_def one_scan_def)

section \<open>Recommendations\<close>

text \<open>
  C7: \<^const>\<open>get_recommendations\<close> returns its notices in the order of the rules: the two
  urgent notices on High, then blood pressure (systolic above 140 or diastolic above 90),
  blood sugar above 126, cholesterol above 240, BMI above 30, smoking, alcohol, the
  3-6-month checkups on Medium, the annual checkup on Low, and last the three lifestyle
  notices, which are always there.
\<close>

theorem get_recommendations_order:
  "get_recommendations f risk_level stg = spec_recommend f risk_level"
  by (simp add: get_recommendations_def spec_recommend_def append_if_def Let_def)

text \<open>
  The scenario of the specification: systolic 150, diastolic 95, everything else in range,
  risk Medium.
\<close>

theorem get_recommendations_order_witness:
  "get_recommendations patient_raised_bp Medium (Some Stage1)
     = [HighBloodPressure, CheckupsEvery3to6Months, RegularExercise, BalancedDiet, AdequateSleep]"
  using get_recommendations_order [of patient_raised_bp Medium "Some Stage1"]
  by (simp add: spec_recommend_def patient_raised_bp_def)

section \<open>Explanation\<close>

lemma normalized_names:
  "normalized ''age'' v = (v - 20) / 70"
  "normalized ''heart_rate'' v = (v - 60) / 60"
  "normalized ''bp_systolic'' v = (v - 90) / 90"
  "normalized ''bp_diastolic'' v = (v - 60) / 60"
  "normalized ''blood_sugar'' v = (v - 70) / 180"
  "normalized ''cholesterol'' v = (v - 150) / 150"
  "normalized ''bmi'' v = (v - 18) / 22"
  "normalized ''is_smoker'' v = v"
  "normalized ''is_alcoholic'' v = v"
  unfolding normalized_def by simp_all

lemma enumerate_feature_names:
  "enumerate 0 feature_names =
     [(0, ''age''), (1, ''heart_rate''), (2, ''bp_systolic''), (3, ''bp_diastolic''),
      (4, ''blood_sugar''), (5, ''cholesterol''), (6, ''bmi''), (7, ''is_smoker''),
      (8, ''is_alcoholic'')]"
  by (simp add: feature_names_def)

text \<open>The loop over the feature names computes the specification's nine contributions.\<close>

lemma contributions_spec:
  "map (contribution importances (feature_vector f)) (enumerate 0 feature_names)
     = spec_contributions importances f"
  unfolding enumerate_feature_names
  by (simp add: feature_vector_def contribution_def normalized_names
        spec_contributions_def spec_normalized_def mult.commute)

lemma explain_prediction_eq:
  "model m = Some rf \<Longrightarrow> get_feature_importance m = Some importances \<Longrightarrow>
     explain_prediction m f
       = Some (sort_key (\<lambda>x. - snd x)
                 (if 0 < spec_total importances f then spec_percentages importances f
                  else spec_contributions importances f))"
  by (simp add: explain_prediction_def contributions_spec spec_total_def spec_percentages_def
        Let_def)







lemma ml_loaded_importances:
  "get_feature_importance ml_loaded = Some (zip feature_names (forest_importances forest_class2))"
  by (simp add: get_feature_importance_def ml_loaded_def forest_class2_def)

lemma spec_contributions_raised_bp:
  "spec_contributions (zip feature_names (forest_importances forest_class2)) patient_raised_bp
     = [(''age'', 9 / 56), (''heart_rate'', 1 / 60), (''bp_systolic'', 2 / 15),
        (''bp_diastolic'', 7 / 240), (''blood_sugar'', 1 / 40), (''cholesterol'', 1 / 30),
        (''bmi'', 1 / 22), (''is_smoker'', 0), (''is_alcoholic'', 0)]"
  by (simp add: spec_contributions_def spec_normalized_def importance_of_def
        feature_names_def forest_class2_def patient_raised_bp_def)

lemma spec_total_raised_bp:
  "spec_total (zip feature_names (forest_importances forest_class2)) patient_raised_bp
     = 2733 / 6160"
  by (simp add: spec_total_def spec_contributions_raised_bp)

lemma explain_raised_bp:
  "explain_prediction ml_loaded patient_raised_bp
     = Some [(''age'', 33000 / 911), (''bp_systolic'', 246400 / 8199), (''bmi'', 28000 / 2733),
             (''cholesterol'', 61600 / 8199), (''bp_diastolic'', 53900 / 8199),
             (''blood_sugar'', 15400 / 2733), (''heart_rate'', 30800 / 8199),
             (''is_smoker'', 0), (''is_alcoholic'', 0)]"
proof -
  have m: "model ml_loaded = Some forest_class2" by (simp add: ml_loaded_def)
  show ?thesis
    unfolding explain_prediction_eq [OF m ml_loaded_importances]
    by (simp add: spec_percentages_def spec_total_raised_bp spec_contributions_raised_bp
          sort_key_def)
qed





text \<open>
  C10: with a model and its importances at hand, the mapping that
  \<^const>\<open>explain_prediction\<close> returns lists its entries by non-increasing percentage.
\<close>

theorem explain_prediction_sorted:
  "model m = Some rf \<Longrightarrow> get_feature_importance m = Some importances \<Longrightarrow>
     \<exists>out. explain_prediction m f = Some out \<and> sorted_wrt (\<lambda>a b. b \<le> a) (map snd out)"
proof -
  assume m: "model m = Some rf" and i: "get_feature_importance m = Some importances"
  let ?xs = "if 0 < spec_total importances f then spec_percentages importances f
             else spec_contributions importances f"
  let ?out = "sort_key (\<lambda>x. - snd x) ?xs"
  have e: "explain_prediction m f = Some ?out" using m i by (rule explain_prediction_eq)
  have "sorted (map (\<lambda>x. - snd x) ?out)" by (rule sorted_sort_key)
  then have "sorted_wrt (\<lambda>a b. b \<le> a) (map snd ?out)"
    by (simp add: sorted_wrt_map)
  then show ?thesis using e by blast
qed

text \<open>
  For the patient with raised blood pressure the entries come out from age, the largest
  share, down to the two habits at zero.
\<close>

theorem explain_prediction_sorted_witness:
  "model ml_loaded = Some forest_class2
   \<and> get_feature_importance ml_loaded = Some (zip feature_names (forest_importances forest_class2))
   \<and> map fst (the (explain_prediction ml_loaded patient_raised_bp))
       = [''age'', ''bp_systolic'', ''bmi'', ''cholesterol'', ''bp_diastolic'', ''blood_sugar'',
          ''heart_rate'', ''is_smoker'', ''is_alcoholic'']
   \<and> sorted_wrt (\<lambda>a b. b \<le> a) (map snd (the (explain_prediction ml_loaded patient_raised_bp)))"
proof -
  have m: "model ml_loaded = Some forest_class2" by (simp add: ml_loaded_def)
  show ?thesis
    using explain_prediction_sorted [OF m ml_loaded_importances, of patient_raised_bp]
      m ml_loaded_importances
    by (simp add: explain_raised_bp)
qed

end
